theory Spec2Isabelle
  imports Complex_Main "HOL-Library.Word"
begin

section \<open>The VSync relay (vsync.py): a shallow embedding\<close>

text \<open>
  The script reads its settings from the command line and a JSON file, opens a serial
  port, loads a native library and then relays every accepted, debounced return of the
  library's blocking wait function as one marker byte on the serial line.

  The model follows \<^verbatim>\<open>src/vsync.py\<close> function by function. What the script
  obtains from outside (the parsed command line, the contents of the config file, the
  results of opening the port and of loading the library, the returns of the wait
  function, the clock and the serial write) is input of the model; what it does to the
  outside (device actions, bytes handed to the serial port, log records, the way the
  process ends) is its result.

  Python floats are idealised as real numbers: rounding, infinities and NaN are not
  modelled.
\<close>

subsection \<open>Python values and exceptions\<close>

text \<open>
  The values that reach the script: what \<^verbatim>\<open>json.load\<close> builds (None, bool, int,
  float, str, list, dict), what argparse builds (None, int, float, str) and the
  \<^verbatim>\<open>Path\<close> object of line 110.
\<close>

datatype pyval =
    PNone
  | PBool bool
  | PInt int
  | PFloat real
  | PStr string
  | PList "pyval list"
  | PDict "(string \<times> pyval) list"
  | PPath string

text \<open>
  Exceptions by class, with \<^verbatim>\<open>str(exc)\<close> where the script or its user reads it.
  \<open>SerialException\<close>, \<open>OSError\<close>, \<open>JSONDecodeError\<close> and \<open>AttributeError\<close> carry the
  cause reported by pyserial, the operating system, the JSON parser and ctypes.
  \<open>OtherError\<close> stands for every other class (UnicodeDecodeError, RecursionError, ...).
\<close>

datatype exn =
    KeyboardInterrupt
  | ValueError string
  | TypeError
  | KeyError string
  | SerialException string
  | OSError string
  | JSONDecodeError string
  | AttributeError string
  | OtherError string

text \<open>Truth value testing, as the operator \<^verbatim>\<open>or\<close> applies it.\<close>

fun truthy :: "pyval \<Rightarrow> bool" where
  "truthy PNone = False"
| "truthy (PBool b) = b"
| "truthy (PInt n) = (n \<noteq> 0)"
| "truthy (PFloat r) = (r \<noteq> 0)"
| "truthy (PStr s) = (s \<noteq> [])"
| "truthy (PList xs) = (xs \<noteq> [])"
| "truthy (PDict kvs) = (kvs \<noteq> [])"
| "truthy (PPath p) = True"

definition py_or :: "pyval \<Rightarrow> pyval \<Rightarrow> pyval" where
  "py_or a b = (if truthy a then a else b)"

text \<open>
  The interpreter's built-ins that the script applies to values of any type. Three of
  them are left to the interpreter and taken as parameters: the parser that
  \<^verbatim>\<open>int()\<close> runs on a non-empty string (\<open>None\<close> stands for its ValueError), the
  text of a path object (\<^verbatim>\<open>str(Path(s))\<close>, which pathlib normalises:
  \<^verbatim>\<open>./vs.dll\<close> becomes \<^verbatim>\<open>vs.dll\<close>), and the text that an f-string renders for a
  value that is neither a string nor a path.
\<close>

record interp =
  int_of_str :: "string \<Rightarrow> int option"
  str_of_path :: "string \<Rightarrow> string"
  str_of_other :: "pyval \<Rightarrow> string"

text \<open>\<open>PPath s\<close> is the object \<^verbatim>\<open>Path(s)\<close>: it keeps the string it was built from.\<close>

definition py_str :: "interp \<Rightarrow> pyval \<Rightarrow> string" where
  "py_str ip v =
     (case v of PStr s \<Rightarrow> s | PPath p \<Rightarrow> str_of_path ip p | _ \<Rightarrow> str_of_other ip v)"

text \<open>\<^verbatim>\<open>int(x)\<close>: a float is truncated towards zero.\<close>

definition py_int :: "interp \<Rightarrow> pyval \<Rightarrow> exn + int" where
  "py_int ip v =
     (case v of
        PInt n \<Rightarrow> Inr n
      | PBool b \<Rightarrow> Inr (if b then 1 else 0)
      | PFloat r \<Rightarrow> Inr (if r < 0 then - \<lfloor>- r\<rfloor> else \<lfloor>r\<rfloor>)
      | PStr s \<Rightarrow> (case int_of_str ip s of
                    None \<Rightarrow> Inl (ValueError (''invalid literal for int() with base 10''))
                  | Some n \<Rightarrow> Inr n)
      | _ \<Rightarrow> Inl TypeError)"

text \<open>
  The number a value stands for in a comparison with a float: an int is compared by its
  exact value, a bool as 0 or 1, and no other type is comparable.
\<close>

definition as_real :: "pyval \<Rightarrow> real option" where
  "as_real v =
     (case v of
        PInt n \<Rightarrow> Some (of_int n)
      | PFloat r \<Rightarrow> Some r
      | PBool b \<Rightarrow> Some (if b then 1 else 0)
      | _ \<Rightarrow> None)"

text \<open>\<^verbatim>\<open>x < y\<close> for a float \<open>x\<close>: a TypeError when \<open>y\<close> is not a number.\<close>

definition py_float_lt :: "real \<Rightarrow> pyval \<Rightarrow> exn + bool" where
  "py_float_lt x v = (case as_real v of None \<Rightarrow> Inl TypeError | Some r \<Rightarrow> Inr (x < r))"

text \<open>\<^verbatim>\<open>Path(x)\<close> (line 110): a path from a string, a TypeError from anything else.\<close>

definition Path :: "pyval \<Rightarrow> exn + pyval" where
  "Path v = (case v of PStr s \<Rightarrow> Inr (PPath s) | PPath p \<Rightarrow> Inr (PPath p) | _ \<Rightarrow> Inl TypeError)"

subsection \<open>Configuration: lines 33 to 56\<close>

text \<open>
  What the file system and the JSON parser give for the config path: the file does not
  exist, or opening, reading or parsing it raises, or \<^verbatim>\<open>json.load\<close> returns a value.
  The value is whatever the document holds: an object (a dict), but also null, a
  number, a string or a list. A dict is written \<open>PDict kvs\<close>, with \<open>map_of kvs\<close> for its
  lookup.
\<close>

datatype config_file =
    Absent
  | Failing exn
  | Parsed pyval

definition quoted :: "string \<Rightarrow> string" where
  "quoted s = [CHR 0x27] @ s @ [CHR 0x27]"

text \<open>How the process ends.\<close>

datatype exit =
    Exit int
  | Usage string
  | Fatal string
  | Uncaught exn
  | Running

text \<open>
  \<open>Exit n\<close>: \<^verbatim>\<open>sys.exit(n)\<close> with the value \<open>main\<close> returned. \<open>Usage m\<close>:
  \<^verbatim>\<open>parser.error(m)\<close>, which prints the usage and \<open>m\<close> and exits with status 2.
  \<open>Fatal m\<close>: \<^verbatim>\<open>SystemExit(m)\<close>, which prints \<open>m\<close> and exits with status 1.
  \<open>Uncaught e\<close>: an exception nobody handles, reported by the interpreter with a
  traceback and a non-zero status (written 1 here). \<open>Running\<close>: the process is still
  blocked in the wait function when the recorded returns are used up.
\<close>

fun exit_status :: "exit \<Rightarrow> int option" where
  "exit_status (Exit n) = Some n"
| "exit_status (Usage m) = Some 2"
| "exit_status (Fatal m) = Some 1"
| "exit_status (Uncaught e) = Some 1"
| "exit_status Running = None"

text \<open>
  \<^verbatim>\<open>_load_config\<close>: the handler of line 39 catches OSError and JSONDecodeError and
  turns them into \<^verbatim>\<open>SystemExit\<close>; any other exception leaves the function, and
  \<open>main\<close>, as it is. \<open>config_path\<close> is the text of the path.
\<close>

definition load_config :: "string \<Rightarrow> config_file \<Rightarrow> exit + pyval" where
  "load_config config_path f =
     (case f of
        Absent \<Rightarrow> Inr (PDict [])
      | Failing e \<Rightarrow>
          (case e of
             OSError cause \<Rightarrow>
               Inl (Fatal (''Failed to load config '' @ quoted config_path @ '': '' @ cause))
           | JSONDecodeError cause \<Rightarrow>
               Inl (Fatal (''Failed to load config '' @ quoted config_path @ '': '' @ cause))
           | _ \<Rightarrow> Inl (Uncaught e))
      | Parsed c \<Rightarrow> Inr c)"

text \<open>\<^verbatim>\<open>key in s\<close> for two strings: \<open>key\<close> occurs in \<open>s\<close> as a substring.\<close>

fun starts_with :: "string \<Rightarrow> string \<Rightarrow> bool" where
  "starts_with [] s = True"
| "starts_with (c # cs) [] = False"
| "starts_with (c # cs) (d # ds) = (c = d \<and> starts_with cs ds)"

fun contains_str :: "string \<Rightarrow> string \<Rightarrow> bool" where
  "contains_str key [] = (key = [])"
| "contains_str key (d # ds) = (starts_with key (d # ds) \<or> contains_str key ds)"

text \<open>
  \<^verbatim>\<open>key in config\<close> (line 52): the keys of a dict, the elements of a list, the
  substrings of a string; a TypeError for a value that is not iterable.
\<close>

definition py_in :: "string \<Rightarrow> pyval \<Rightarrow> exn + bool" where
  "py_in key c =
     (case c of
        PDict kvs \<Rightarrow> Inr (map_of kvs key \<noteq> None)
      | PList xs \<Rightarrow> Inr (PStr key \<in> set xs)
      | PStr s \<Rightarrow> Inr (contains_str key s)
      | _ \<Rightarrow> Inl TypeError)"

text \<open>
  \<^verbatim>\<open>config[key]\<close> (line 53) for a string \<open>key\<close>: the value of a dict, a TypeError
  for a list or a string (their indices are integers) and for every other value.
\<close>

definition py_getitem :: "pyval \<Rightarrow> string \<Rightarrow> exn + pyval" where
  "py_getitem c key =
     (case c of
        PDict kvs \<Rightarrow> (case map_of kvs key of None \<Rightarrow> Inl (KeyError key) | Some v \<Rightarrow> Inr v)
      | _ \<Rightarrow> Inl TypeError)"

definition resolve_option :: "pyval \<Rightarrow> pyval \<Rightarrow> string \<Rightarrow> bool \<Rightarrow> exn + pyval" where
  "resolve_option cli_value config key required =
     (if cli_value \<noteq> PNone then Inr cli_value
      else case py_in key config of
        Inl e \<Rightarrow> Inl e
      | Inr present \<Rightarrow>
          if present then py_getitem config key
          else if required
          then Inl (ValueError (''Option '' @ quoted key @
                 '' is required; supply it on the command line or config file''))
          else Inr PNone)"

subsection \<open>The parsed command line: lines 59 to 84\<close>

datatype log_level = Debug | Info | Warning | Error

text \<open>The numeric levels of the logging module.\<close>

fun level_no :: "log_level \<Rightarrow> nat" where
  "level_no Debug = 10"
| "level_no Info = 20"
| "level_no Warning = 30"
| "level_no Error = 40"

text \<open>
  The namespace that \<^verbatim>\<open>parse_args\<close> returns. An option that was not given is
  \<open>None\<close>, as every \<^verbatim>\<open>default=None\<close> of the parser says; \<^verbatim>\<open>--config\<close> and
  \<^verbatim>\<open>--log-level\<close> always have a value.
\<close>

record args =
  config_path :: string
  port :: "string option"
  dll :: "string option"
  baudrate :: "int option"
  pulse_threshold :: "real option"
  warmup :: "int option"
  log_level :: log_level

definition str_arg :: "string option \<Rightarrow> pyval" where
  "str_arg a = (case a of None \<Rightarrow> PNone | Some s \<Rightarrow> PStr s)"

definition int_arg :: "int option \<Rightarrow> pyval" where
  "int_arg a = (case a of None \<Rightarrow> PNone | Some n \<Rightarrow> PInt n)"

definition float_arg :: "real option \<Rightarrow> pyval" where
  "float_arg a = (case a of None \<Rightarrow> PNone | Some r \<Rightarrow> PFloat r)"

subsection \<open>The merged settings: lines 108 to 116\<close>

record settings =
  s_port :: pyval
  s_dll_path :: pyval
  s_baudrate :: pyval
  s_pulse_threshold :: pyval
  s_warmup :: int

text \<open>
  The handler of line 111 catches ValueError and hands its text to
  \<^verbatim>\<open>parser.error\<close>; any other exception leaves \<open>main\<close>.
\<close>

definition except_ValueError :: "exn \<Rightarrow> exit" where
  "except_ValueError e = (case e of ValueError m \<Rightarrow> Usage m | _ \<Rightarrow> Uncaught e)"

definition resolve_settings :: "interp \<Rightarrow> args \<Rightarrow> pyval \<Rightarrow> exit + settings" where
  "resolve_settings ip a config =
     (case resolve_option (str_arg (port a)) config ''port'' True of
        Inl e \<Rightarrow> Inl (except_ValueError e)
      | Inr port_v \<Rightarrow>
     (case resolve_option (str_arg (dll a)) config ''dll'' True of
        Inl e \<Rightarrow> Inl (except_ValueError e)
      | Inr dll_v \<Rightarrow>
     (case Path dll_v of
        Inl e \<Rightarrow> Inl (except_ValueError e)
      | Inr dll_path \<Rightarrow>
     (case resolve_option (int_arg (baudrate a)) config ''baudrate'' False of
        Inl e \<Rightarrow> Inl (Uncaught e)
      | Inr baudrate_v \<Rightarrow>
     (case resolve_option (float_arg (pulse_threshold a)) config ''pulse_threshold'' False of
        Inl e \<Rightarrow> Inl (Uncaught e)
      | Inr threshold_v \<Rightarrow>
     (case resolve_option (int_arg (warmup a)) config ''warmup'' False of
        Inl e \<Rightarrow> Inl (Uncaught e)
      | Inr warmup_v \<Rightarrow>
     (case py_int ip (py_or warmup_v (PInt 0)) of
        Inl e \<Rightarrow> Inl (Uncaught e)
      | Inr n \<Rightarrow>
          Inr \<lparr>s_port = port_v,
               s_dll_path = dll_path,
               s_baudrate = py_or baudrate_v (PInt 921600),
               s_pulse_threshold = py_or threshold_v (PFloat (5 / 10000)),
               s_warmup = n\<rparr>)))))))"

subsection \<open>The outside world\<close>

text \<open>
  One call of the wait function and what follows it in the same pass of the loop: what
  the call gives (a status, or an exception that it raises), what the clock reads if
  line 136 is reached, and what the serial write does if line 140 is reached (\<open>None\<close>:
  it returns). A KeyboardInterrupt that arrives anywhere in a pass is the exception of
  the call or of the write, whichever the pass has not yet left behind.
\<close>

record tick =
  wait_result :: "exn + int"
  clock :: real
  write_result :: "exn option"

record env =
  builtins :: interp
  config_doc :: config_file
  serial_Serial :: "pyval \<Rightarrow> pyval \<Rightarrow> exn option"
  CDLL :: "string \<Rightarrow> exn option"
  wait_for_vsync :: "string \<Rightarrow> exn option"
  ticks :: "tick list"

text \<open>
  \<open>serial_Serial env port baudrate\<close>: the constructor of line 96 (\<open>None\<close>: it returns
  a connection). \<open>CDLL env path\<close>: the load of line 88. \<open>wait_for_vsync env path\<close>: the
  attribute lookup of line 89 on the loaded library.
\<close>

datatype action =
    SerialOpen pyval pyval
  | LoadLibrary string
  | SerialClose

type_synonym log_record = "log_level \<times> string \<times> pyval list"

text \<open>
  \<^verbatim>\<open>LOGGER.info(fmt, *args)\<close> under \<^verbatim>\<open>logging.basicConfig(level=...)\<close> of line 118:
  the record is emitted when the configured level does not exceed INFO.
\<close>

definition LOGGER_info :: "log_level \<Rightarrow> string \<Rightarrow> pyval list \<Rightarrow> log_record list \<Rightarrow> log_record list" where
  "LOGGER_info configured fmt as lg =
     (if level_no configured \<le> level_no Info then lg @ [(Info, fmt, as)] else lg)"

subsection \<open>Opening the devices: lines 87 to 99\<close>

definition create_vsync_waiter :: "env \<Rightarrow> pyval \<Rightarrow> exn + unit" where
  "create_vsync_waiter env dll_path =
     (case CDLL env (py_str (builtins env) dll_path) of
        Some e \<Rightarrow> Inl e
      | None \<Rightarrow>
          (case wait_for_vsync env (py_str (builtins env) dll_path) of
             Some e \<Rightarrow> Inl e
           | None \<Rightarrow> Inr ()))"

definition open_serial :: "env \<Rightarrow> pyval \<Rightarrow> pyval \<Rightarrow> exit + unit" where
  "open_serial env port_v baudrate_v =
     (case serial_Serial env port_v baudrate_v of
        None \<Rightarrow> Inr ()
      | Some (SerialException cause) \<Rightarrow>
          Inl (Fatal (''Failed to open serial port '' @ quoted (py_str (builtins env) port_v)
                 @ '': '' @ cause))
      | Some e \<Rightarrow> Inl (Uncaught e))"

subsection \<open>The relay: lines 128 to 145\<close>

definition PULSE_BYTE :: "8 word list" where
  "PULSE_BYTE = [0xAA]"

text \<open>
  The loop's variable, and the bytes handed to \<^verbatim>\<open>ser.write\<close> so far (a write that
  raises has been handed its byte).
\<close>

record relay_state =
  last_pulse :: real
  written :: "8 word list"

text \<open>
  The loop never ends by itself. Over a finite record of ticks it either is left by an
  exception, or is still blocked in the wait function when the record is used up.
\<close>

datatype stop = Blocked | Raised exn

fun warm_up :: "nat \<Rightarrow> tick list \<Rightarrow> stop + tick list" where
  "warm_up 0 ts = Inr ts"
| "warm_up (Suc n) [] = Inl Blocked"
| "warm_up (Suc n) (t # ts) =
     (case wait_result t of
        Inl e \<Rightarrow> Inl (Raised e)
      | Inr status \<Rightarrow> warm_up n ts)"

fun relay_loop :: "pyval \<Rightarrow> relay_state \<Rightarrow> tick list \<Rightarrow> relay_state \<times> stop" where
  "relay_loop threshold s [] = (s, Blocked)"
| "relay_loop threshold s (t # ts) =
     (case wait_result t of
        Inl e \<Rightarrow> (s, Raised e)
      | Inr status \<Rightarrow>
          if status \<noteq> 1 then relay_loop threshold s ts
          else
            (case py_float_lt (clock t - last_pulse s) threshold of
               Inl e \<Rightarrow> (s, Raised e)
             | Inr too_soon \<Rightarrow>
                 if too_soon then relay_loop threshold s ts
                 else
                   (case write_result t of
                      Some e \<Rightarrow>
                        (\<lparr>last_pulse = clock t, written = written s @ PULSE_BYTE\<rparr>, Raised e)
                    | None \<Rightarrow>
                        relay_loop threshold
                          \<lparr>last_pulse = clock t, written = written s @ PULSE_BYTE\<rparr> ts)))"

text \<open>The body of the \<^verbatim>\<open>try\<close> statement: \<^verbatim>\<open>range(warmup)\<close> is empty for a negative count.\<close>

definition try_block :: "int \<Rightarrow> pyval \<Rightarrow> tick list \<Rightarrow> relay_state \<times> stop" where
  "try_block warmup_n threshold ts =
     (case warm_up (nat warmup_n) ts of
        Inl st \<Rightarrow> (\<lparr>last_pulse = 0, written = []\<rparr>, st)
      | Inr rest \<Rightarrow> relay_loop threshold \<lparr>last_pulse = 0, written = []\<rparr> rest)"

subsection \<open>The program: lines 102 to 145\<close>

record outcome =
  ended :: exit
  logged :: "log_record list"
  actions :: "action list"
  sent :: "8 word list"

definition main :: "args \<Rightarrow> env \<Rightarrow> outcome" where
  "main a env =
     (case load_config (config_path a) (config_doc env) of
        Inl x \<Rightarrow> \<lparr>ended = x, logged = [], actions = [], sent = []\<rparr>
      | Inr config \<Rightarrow>
     (case resolve_settings (builtins env) a config of
        Inl x \<Rightarrow> \<lparr>ended = x, logged = [], actions = [], sent = []\<rparr>
      | Inr s \<Rightarrow>
     (let lg1 = LOGGER_info (log_level a) ''Opening serial port %s @ %d baud''
                  [s_port s, s_baudrate s] [];
          act1 = [SerialOpen (s_port s) (s_baudrate s)]
      in case open_serial env (s_port s) (s_baudrate s) of
        Inl x \<Rightarrow> \<lparr>ended = x, logged = lg1, actions = act1, sent = []\<rparr>
      | Inr ser \<Rightarrow>
     (let lg2 = LOGGER_info (log_level a) ''Loading VSYNC waiter DLL from %s''
                  [s_dll_path s] lg1;
          act2 = act1 @ [LoadLibrary (py_str (builtins env) (s_dll_path s))]
      in case create_vsync_waiter env (s_dll_path s) of
        Inl e \<Rightarrow> \<lparr>ended = Uncaught e, logged = lg2, actions = act2, sent = []\<rparr>
      | Inr vsync_func \<Rightarrow>
     (let lg3 = LOGGER_info (log_level a)
                  ''Starting VSYNC relay (pulse_threshold=%s s, warmup=%s frames)''
                  [s_pulse_threshold s, PInt (s_warmup s)] lg2
      in case try_block (s_warmup s) (s_pulse_threshold s) (ticks env) of
        (st, Blocked) \<Rightarrow>
          \<lparr>ended = Running, logged = lg3, actions = act2, sent = written st\<rparr>
      | (st, Raised KeyboardInterrupt) \<Rightarrow>
          \<lparr>ended = Exit 0,
           logged = LOGGER_info (log_level a) ''Exiting on user request'' [] lg3,
           actions = act2 @ [SerialClose], sent = written st\<rparr>
      | (st, Raised e) \<Rightarrow>
          \<lparr>ended = Uncaught e, logged = lg3, actions = act2 @ [SerialClose],
           sent = written st\<rparr>)))))"

subsection \<open>Vocabulary of the specification\<close>

text \<open>A call of the wait function that returned a status, whatever the status.\<close>

definition returned :: "tick \<Rightarrow> bool" where
  "returned t = (case wait_result t of Inl e \<Rightarrow> False | Inr status \<Rightarrow> True)"

text \<open>A call that returned a status other than ACCEPT (the value 1).\<close>

definition spurious :: "tick \<Rightarrow> bool" where
  "spurious t = (case wait_result t of Inl e \<Rightarrow> False | Inr status \<Rightarrow> status \<noteq> 1)"

text \<open>
  The accepted, debounced edges of a run, in the words of the specification: a call
  that returns ACCEPT is accepted unless the time elapsed since the last accepted edge
  is below the threshold, and the accepted edge becomes the last one. The list holds
  the clock readings of the accepted edges. The run is over when a call or a write
  raises.
\<close>

fun accepted_edges :: "real \<Rightarrow> real \<Rightarrow> tick list \<Rightarrow> real list" where
  "accepted_edges r last_accepted [] = []"
| "accepted_edges r last_accepted (t # ts) =
     (case wait_result t of
        Inl e \<Rightarrow> []
      | Inr status \<Rightarrow>
          if status = 1 \<and> \<not> clock t - last_accepted < r
          then clock t #
                 (case write_result t of
                    None \<Rightarrow> accepted_edges r (clock t) ts
                  | Some e \<Rightarrow> [])
          else accepted_edges r last_accepted ts)"

subsection \<open>Concrete inputs\<close>

text \<open>A call that returns ACCEPT at the clock reading \<open>now\<close>, with a write that returns.\<close>

definition edge :: "real \<Rightarrow> tick" where
  "edge now = \<lparr>wait_result = Inr 1, clock = now, write_result = None\<rparr>"

text \<open>A call during which the user presses Ctrl-C.\<close>

definition interrupt :: tick where
  "interrupt = \<lparr>wait_result = Inl KeyboardInterrupt, clock = 0, write_result = None\<rparr>"

text \<open>The command line \<^verbatim>\<open>python vsync.py\<close>, with no option given.\<close>

definition no_options :: args where
  "no_options =
     \<lparr>config_path = ''vsync.config.json'', port = None, dll = None, baudrate = None,
      pulse_threshold = None, warmup = None, log_level = Info\<rparr>"

text \<open>
  An interpreter for the inputs below: their paths are in normal form already, and no
  string is converted to an int.
\<close>

definition plain_interp :: interp where
  "plain_interp =
     \<lparr>int_of_str = (\<lambda>s. None), str_of_path = (\<lambda>p. p), str_of_other = (\<lambda>v. ''<object>'')\<rparr>"

text \<open>A machine on which the port opens and the library loads and has the function.\<close>

definition working_env :: "config_file \<Rightarrow> tick list \<Rightarrow> env" where
  "working_env doc ts =
     \<lparr>builtins = plain_interp, config_doc = doc, serial_Serial = (\<lambda>p b. None),
      CDLL = (\<lambda>p. None), wait_for_vsync = (\<lambda>p. None), ticks = ts\<rparr>"

text \<open>The config file of the specification's first scenario.\<close>

definition com5_config :: pyval where
  "com5_config = PDict [(''port'', PStr ''COM5''), (''dll'', PStr ''vs.dll'')]"

section \<open>Evaluation\<close>

text \<open>The definitions that a concrete run unfolds.\<close>

lemmas startup_defs =
  main_def load_config_def resolve_settings_def resolve_option_def py_in_def py_getitem_def
  except_ValueError_def str_arg_def int_arg_def float_arg_def Path_def py_or_def py_int_def
  py_str_def open_serial_def create_vsync_waiter_def LOGGER_info_def Let_def

lemmas relay_defs = try_block_def py_float_lt_def as_real_def PULSE_BYTE_def

lemmas input_defs =
  no_options_def working_env_def com5_config_def plain_interp_def edge_def interrupt_def

section \<open>The relay loop\<close>

subsection \<open>Runs and their extensions\<close>

lemma warm_up_returns:
  "list_all returned ws \<Longrightarrow> warm_up (length ws) (ws @ ts) = Inr ts"
  by (induction ws) (auto simp: returned_def split: sum.splits)

lemma warm_up_Blocked: "warm_up n ts = Inl Blocked \<Longrightarrow> length ts < n"
  by (induction n ts rule: warm_up.induct) (auto split: sum.splits)

lemma warm_up_append: "warm_up n ts = Inr rest \<Longrightarrow> warm_up n (ts @ us) = Inr (rest @ us)"
  by (induction n ts rule: warm_up.induct) (auto split: sum.splits)

lemma warm_up_within: "warm_up n ts = Inr rest \<Longrightarrow> length ts \<le> n \<Longrightarrow> rest = []"
  by (induction n ts rule: warm_up.induct) (auto split: sum.splits)

lemma try_block_warming:
  assumes "length ts \<le> nat w"
  shows "fst (try_block w thr ts) = \<lparr>last_pulse = 0, written = []\<rparr>"
proof (cases "warm_up (nat w) ts")
  case (Inl st)
  then show ?thesis by (simp add: try_block_def)
next
  case (Inr rest)
  from warm_up_within [OF Inr assms] Inr show ?thesis
    by (simp add: try_block_def)
qed

lemma relay_loop_append:
  "relay_loop thr s ts = (s', Blocked) \<Longrightarrow> relay_loop thr s (ts @ us) = relay_loop thr s' us"
  by (induction thr s ts rule: relay_loop.induct)
     (auto split: sum.splits option.splits if_splits)

lemma relay_loop_spurious:
  "list_all spurious ns \<Longrightarrow> relay_loop thr s (ns @ us) = relay_loop thr s us"
  by (induction ns) (auto simp: spurious_def split: sum.splits)

lemma relay_loop_edge:
  assumes "wait_result t = Inr 1" and "as_real thr = Some r"
  shows "fst (relay_loop thr s [t]) =
           (if clock t - last_pulse s < r then s
            else \<lparr>last_pulse = clock t, written = written s @ [0xAA]\<rparr>)"
  using assms by (simp add: py_float_lt_def PULSE_BYTE_def split: option.splits)

lemma as_real_PFloat: "as_real (PFloat r) = Some r"
  by (simp add: as_real_def)

lemma wait_result_edge: "wait_result (edge now) = Inr 1"
  by (simp add: edge_def)

lemma clock_edge: "clock (edge now) = now"
  by (simp add: edge_def)

subsection \<open>Debounce\<close>

text \<open>
  C1. Take any run that has finished its warm-up and is in state \<open>s\<close>, and let the next
  call of the wait function return ACCEPT. If the time elapsed since the last accepted
  pulse is below the threshold, the state stays as it is: no byte is written and
  \<open>last_pulse\<close> keeps its value. Otherwise \<open>last_pulse\<close> becomes the clock reading and
  exactly one marker byte is appended to what has been written.
\<close>

theorem debounce_law:
  assumes run: "try_block w thr pre = (s, Blocked)" and warm: "nat w \<le> length pre"
    and accept: "wait_result t = Inr 1" and thr: "as_real thr = Some r"
  shows "fst (try_block w thr (pre @ [t])) =
           (if clock t - last_pulse s < r then s
            else \<lparr>last_pulse = clock t, written = written s @ [0xAA]\<rparr>)"
proof (cases "warm_up (nat w) pre")
  case (Inl st)
  with run have "warm_up (nat w) pre = Inl Blocked"
    by (simp add: try_block_def)
  from warm_up_Blocked [OF this] warm show ?thesis by simp
next
  case (Inr rest)
  with run have loop: "relay_loop thr \<lparr>last_pulse = 0, written = []\<rparr> rest = (s, Blocked)"
    by (simp add: try_block_def)
  have "try_block w thr (pre @ [t]) =
          relay_loop thr \<lparr>last_pulse = 0, written = []\<rparr> (rest @ [t])"
    by (simp add: try_block_def warm_up_append [OF Inr])
  also have "\<dots> = relay_loop thr s [t]"
    by (rule relay_loop_append [OF loop])
  finally show ?thesis
    by (simp only: relay_loop_edge [OF accept thr])
qed

text \<open>
  The first scenario of the specification: an edge at 100 s, one 0.0001 s later
  (discarded) and one 0.01 s later (accepted), under the default threshold.
\<close>

theorem debounce_law_witness:
  "fst (try_block 0 (PFloat (5 / 10000)) ([edge 100] @ [edge (1000001 / 10000)])) =
     \<lparr>last_pulse = 100, written = [0xAA]\<rparr>
   \<and> fst (try_block 0 (PFloat (5 / 10000)) ([edge 100] @ [edge (10001 / 100)])) =
     \<lparr>last_pulse = 10001 / 100, written = [0xAA, 0xAA]\<rparr>"
proof -
  have run: "try_block 0 (PFloat (5 / 10000)) [edge 100] =
               (\<lparr>last_pulse = 100, written = [0xAA]\<rparr>, Blocked)"
    by (simp add: try_block_def edge_def py_float_lt_def as_real_def PULSE_BYTE_def)
  have warm: "nat 0 \<le> length [edge 100]" by simp
  from debounce_law [OF run warm wait_result_edge as_real_PFloat, of "1000001 / 10000"]
       debounce_law [OF run warm wait_result_edge as_real_PFloat, of "10001 / 100"]
  show ?thesis by (simp add: clock_edge)
qed

subsection \<open>Warm-up\<close>

text \<open>
  C2. With a warm-up count of \<open>N\<close>, the first \<open>N\<close> calls of the wait function leave no
  trace, whatever status they return and whatever the clock reads: after any number of
  them nothing has been written and \<open>last_pulse\<close> has its initial value, and the run
  goes on, from the initial state, with the calls that follow them.
\<close>

theorem warm_up_law:
  assumes "length ws = nat w" and "list_all returned ws"
  shows "try_block w thr (ws @ ts) = relay_loop thr \<lparr>last_pulse = 0, written = []\<rparr> ts
       \<and> (\<forall>k. fst (try_block w thr (take k ws)) = \<lparr>last_pulse = 0, written = []\<rparr>)"
proof
  from assms show "try_block w thr (ws @ ts) =
                     relay_loop thr \<lparr>last_pulse = 0, written = []\<rparr> ts"
    using warm_up_returns [of ws ts] by (simp add: try_block_def)
next
  show "\<forall>k. fst (try_block w thr (take k ws)) = \<lparr>last_pulse = 0, written = []\<rparr>"
  proof
    fix k
    have "length (take k ws) \<le> nat w" using assms(1) by simp
    then show "fst (try_block w thr (take k ws)) = \<lparr>last_pulse = 0, written = []\<rparr>"
      by (rule try_block_warming)
  qed
qed

text \<open>
  Three warm-up calls that all return ACCEPT, 0.1 s apart: nothing is written for them,
  and the edge that follows is the first one the loop sees.
\<close>

theorem warm_up_law_witness:
  "try_block 3 (PFloat (5 / 10000)) ([edge 100, edge (1001 / 10), edge (1002 / 10)] @ [edge 101]) =
     (\<lparr>last_pulse = 101, written = [0xAA]\<rparr>, Blocked)
   \<and> fst (try_block 3 (PFloat (5 / 10000)) [edge 100, edge (1001 / 10), edge (1002 / 10)]) =
     \<lparr>last_pulse = 0, written = []\<rparr>"
proof -
  have len: "length [edge 100, edge (1001 / 10), edge (1002 / 10)] = nat 3" by simp
  have ret: "list_all returned [edge 100, edge (1001 / 10), edge (1002 / 10)]"
    by (simp add: returned_def edge_def)
  from warm_up_law [OF len ret, of "PFloat (5 / 10000)" "[edge 101]"]
  have "try_block 3 (PFloat (5 / 10000))
          ([edge 100, edge (1001 / 10), edge (1002 / 10)] @ [edge 101]) =
        relay_loop (PFloat (5 / 10000)) \<lparr>last_pulse = 0, written = []\<rparr> [edge 101]"
    and "fst (try_block 3 (PFloat (5 / 10000))
           (take 3 [edge 100, edge (1001 / 10), edge (1002 / 10)])) =
         \<lparr>last_pulse = 0, written = []\<rparr>"
    by blast+
  then show ?thesis
    by (simp add: edge_def py_float_lt_def as_real_def PULSE_BYTE_def)
qed

subsection \<open>The first accepted edge\<close>

text \<open>
  C6, as the specification states it, fails: \<open>last_pulse\<close> starts as the clock value
  0.0, not as a mark for "no prior pulse", and the first accepted edge is compared with
  it like any other. Here the threshold is one hour (\<^verbatim>\<open>--pulse-threshold 3600\<close>), the
  warm-up count is 3 and the clock reads half an hour at the fourth ACCEPT: nothing is
  written for it.
\<close>

theorem first_accept_discarded:
  "sent (main (no_options\<lparr>pulse_threshold := Some 3600, warmup := Some 3\<rparr>)
          (working_env (Parsed com5_config) [edge 1800, edge 1801, edge 1802, edge 1803])) = []
   \<and> try_block 3 (PFloat 3600) [edge 1800, edge 1801, edge 1802, edge 1803] =
       (\<lparr>last_pulse = 0, written = []\<rparr>, Blocked)"
  by (simp add: startup_defs relay_defs input_defs eval_nat_numeral)

text \<open>
  C6, amended. After a warm-up of \<open>N\<close> calls, the first call that returns ACCEPT is
  compared with \<open>last_pulse = 0.0\<close>: it writes exactly one marker byte and becomes the
  last pulse when the clock reading is not below the threshold, and it is discarded
  when the clock reading is below the threshold.
\<close>

theorem first_accept:
  assumes "length ws = nat w" and "list_all returned ws" and "list_all spurious ns"
    and "wait_result t = Inr 1" and "as_real thr = Some r"
  shows "fst (try_block w thr (ws @ ns @ [t])) =
           (if clock t < r then \<lparr>last_pulse = 0, written = []\<rparr>
            else \<lparr>last_pulse = clock t, written = [0xAA]\<rparr>)"
proof -
  have "try_block w thr (ws @ ns @ [t]) =
          relay_loop thr \<lparr>last_pulse = 0, written = []\<rparr> (ns @ [t])"
    using assms(1,2) warm_up_returns [of ws "ns @ [t]"] by (simp add: try_block_def)
  also have "\<dots> = relay_loop thr \<lparr>last_pulse = 0, written = []\<rparr> [t]"
    by (rule relay_loop_spurious [OF assms(3)])
  finally show ?thesis
    using relay_loop_edge [OF assms(4,5), of "\<lparr>last_pulse = 0, written = []\<rparr>"] by simp
qed

text \<open>
  The second scenario of the specification, with a call that returns 0 between the
  warm-up and the first ACCEPT: under the default threshold the edge at 102 s is
  written.
\<close>

theorem first_accept_witness:
  "fst (try_block 3 (PFloat (5 / 10000))
         ([edge 100, edge (1001 / 10), edge (1002 / 10)]
            @ [\<lparr>wait_result = Inr 0, clock = 101, write_result = None\<rparr>] @ [edge 102])) =
     \<lparr>last_pulse = 102, written = [0xAA]\<rparr>"
proof -
  have len: "length [edge 100, edge (1001 / 10), edge (1002 / 10)] = nat 3" by simp
  have ret: "list_all returned [edge 100, edge (1001 / 10), edge (1002 / 10)]"
    by (simp add: returned_def edge_def)
  have spur: "list_all spurious [\<lparr>wait_result = Inr 0, clock = 101, write_result = None\<rparr>]"
    by (simp add: spurious_def)
  from first_accept [OF len ret spur wait_result_edge [of 102] as_real_PFloat [of "5 / 10000"]]
  show ?thesis by (simp add: clock_edge)
qed

subsection \<open>What goes over the serial line\<close>

lemma relay_loop_written:
  "\<exists>k. written (fst (relay_loop thr s ts)) = written s @ replicate k 0xAA"
proof (induction thr s ts rule: relay_loop.induct)
  case (1 threshold s)
  have "written s = written s @ replicate 0 0xAA" by simp
  then show ?case by (simp del: replicate.simps)
next
  case (2 threshold s t ts)
  let ?s' = "\<lparr>last_pulse = clock t, written = written s @ PULSE_BYTE\<rparr>"
  have one: "written s @ PULSE_BYTE = written s @ replicate 1 0xAA"
    by (simp add: PULSE_BYTE_def)
  have more: "\<And>k. written ?s' @ replicate k 0xAA = written s @ replicate (Suc k) 0xAA"
    by (simp add: PULSE_BYTE_def)
  have zero: "written s = written s @ replicate 0 0xAA" by simp
  show ?case
  proof (cases "wait_result t")
    case (Inl e)
    with zero show ?thesis by auto
  next
    case (Inr status)
    show ?thesis
    proof (cases "status \<noteq> 1")
      case True
      with Inr "2.IH"(1) show ?thesis by simp
    next
      case False
      note accept = this
      show ?thesis
      proof (cases "py_float_lt (clock t - last_pulse s) threshold")
        case (Inl e)
        with Inr accept zero show ?thesis by auto
      next
        case too: (Inr too_soon)
        show ?thesis
        proof (cases too_soon)
          case True
          with Inr accept too "2.IH"(2) show ?thesis by simp
        next
          case False
          show ?thesis
          proof (cases "write_result t")
            case None
            from "2.IH"(3) [OF Inr accept too False None]
            obtain k where "written (fst (relay_loop threshold ?s' ts)) =
                              written ?s' @ replicate k 0xAA" ..
            with more have "written (fst (relay_loop threshold ?s' ts)) =
                              written s @ replicate (Suc k) 0xAA" by simp
            with Inr accept too False None show ?thesis
              by (auto simp del: replicate.simps)
          next
            case (Some e)
            with Inr accept too False one show ?thesis
              by (auto simp del: replicate.simps)
          qed
        qed
      qed
    qed
  qed
qed

text \<open>
  C8. From any state of the relay loop and over any further calls, what the loop hands
  to the serial port is the marker byte 0xAA, once for each accepted, debounced edge,
  and nothing else.
\<close>

theorem marker_bytes_only:
  assumes "as_real thr = Some r"
  shows "written (fst (relay_loop thr s ts)) =
           written s @ replicate (length (accepted_edges r (last_pulse s) ts)) 0xAA"
  using assms
  by (induction thr s ts rule: relay_loop.induct)
     (auto simp: py_float_lt_def PULSE_BYTE_def split: sum.splits option.splits)

text \<open>
  The first scenario of the specification: three calls return ACCEPT, the second
  0.0001 s after the first and the third 0.01 s after the second. Two edges are
  accepted and two marker bytes are written.
\<close>

theorem marker_bytes_only_witness:
  "accepted_edges (5 / 10000) 0 [edge 100, edge (1000001 / 10000), edge (1000101 / 10000)] =
     [100, 1000101 / 10000]
   \<and> written (fst (relay_loop (PFloat (5 / 10000)) \<lparr>last_pulse = 0, written = []\<rparr>
        [edge 100, edge (1000001 / 10000), edge (1000101 / 10000)])) = [0xAA, 0xAA]"
proof -
  have acc: "accepted_edges (5 / 10000) 0
               [edge 100, edge (1000001 / 10000), edge (1000101 / 10000)] =
             [100, 1000101 / 10000]"
    by (simp add: edge_def)
  have "written (fst (relay_loop (PFloat (5 / 10000)) \<lparr>last_pulse = 0, written = []\<rparr>
          [edge 100, edge (1000001 / 10000), edge (1000101 / 10000)])) =
        written \<lparr>last_pulse = 0, written = []\<rparr> @
          replicate (length [100 :: real, 1000101 / 10000]) 0xAA"
    using marker_bytes_only [OF as_real_PFloat [of "5 / 10000"],
         where s = "\<lparr>last_pulse = 0, written = []\<rparr>"
           and ts = "[edge 100, edge (1000001 / 10000), edge (1000101 / 10000)]"]
    by (simp only: acc relay_state.select_convs)
  then have "written (fst (relay_loop (PFloat (5 / 10000)) \<lparr>last_pulse = 0, written = []\<rparr>
          [edge 100, edge (1000001 / 10000), edge (1000101 / 10000)])) = [0xAA, 0xAA]"
    by simp
  with acc show ?thesis by (rule conjI)
qed

text \<open>
  The same for the whole program and without any assumption on the settings: whatever
  the command line, the config file and the machine are, the bytes the process has
  handed to the serial port are marker bytes.
\<close>

lemma try_block_written: "\<exists>k. written (fst (try_block w thr ts)) = replicate k 0xAA"
proof (cases "warm_up (nat w) ts")
  case (Inl st)
  have "([] :: 8 word list) = replicate 0 0xAA" by simp
  with Inl show ?thesis by (simp add: try_block_def del: replicate.simps)
next
  case (Inr rest)
  from relay_loop_written [of thr "\<lparr>last_pulse = 0, written = []\<rparr>" rest] Inr
  show ?thesis by (simp add: try_block_def)
qed

lemma main_sent:
  "sent (main a env) = [] \<or> (\<exists>w thr. sent (main a env) = written (fst (try_block w thr (ticks env))))"
proof (cases "load_config (config_path a) (config_doc env)")
  case (Inl x)
  then show ?thesis by (simp add: main_def)
next
  case c: (Inr config)
  show ?thesis
  proof (cases "resolve_settings (builtins env) a config")
    case (Inl x)
    with c show ?thesis by (simp add: main_def)
  next
    case s: (Inr s)
    show ?thesis
    proof (cases "open_serial env (s_port s) (s_baudrate s)")
      case (Inl x)
      with c s show ?thesis by (simp add: main_def Let_def)
    next
      case o: (Inr u)
      show ?thesis
      proof (cases "create_vsync_waiter env (s_dll_path s)")
        case (Inl e)
        with c s o show ?thesis by (simp add: main_def Let_def)
      next
        case v: (Inr u')
        obtain st how where
          t: "try_block (s_warmup s) (s_pulse_threshold s) (ticks env) = (st, how)"
          by (cases "try_block (s_warmup s) (s_pulse_threshold s) (ticks env)")
        have "sent (main a env) = written st"
          using c s o v t by (simp add: main_def Let_def split: stop.splits exn.splits)
        also have "st = fst (try_block (s_warmup s) (s_pulse_threshold s) (ticks env))"
          by (simp add: t)
        finally show ?thesis by blast
      qed
    qed
  qed
qed

lemma main_sends_markers: "\<exists>k. sent (main a env) = replicate k 0xAA"
proof -
  from main_sent [of a env] show ?thesis
  proof
    assume "sent (main a env) = []"
    then have "sent (main a env) = replicate 0 0xAA" by simp
    then show ?thesis ..
  next
    assume "\<exists>w thr. sent (main a env) = written (fst (try_block w thr (ticks env)))"
    then obtain w thr where "sent (main a env) = written (fst (try_block w thr (ticks env)))"
      by blast
    with try_block_written [of w thr "ticks env"] show ?thesis by auto
  qed
qed

section \<open>Merging the command line and the config file\<close>

subsection \<open>What option resolution returns on a dict\<close>

lemma resolve_option_PDict:
  "resolve_option cli_value (PDict kvs) key required =
     (if cli_value \<noteq> PNone then Inr cli_value
      else case map_of kvs key of
        Some v \<Rightarrow> Inr v
      | None \<Rightarrow>
          if required
          then Inl (ValueError (''Option '' @ quoted key @
                 '' is required; supply it on the command line or config file''))
          else Inr PNone)"
  by (simp add: resolve_option_def py_in_def py_getitem_def split: option.splits)

lemma resolve_required:
  "resolve_option (str_arg x) (PDict kvs) key True =
     (case x of
        Some p \<Rightarrow> Inr (PStr p)
      | None \<Rightarrow>
          (case map_of kvs key of
             Some v \<Rightarrow> Inr v
           | None \<Rightarrow> Inl (ValueError (''Option '' @ quoted key @
                      '' is required; supply it on the command line or config file''))))"
  by (simp add: resolve_option_PDict str_arg_def split: option.splits)

lemma resolve_int:
  "resolve_option (int_arg x) (PDict kvs) key False =
     Inr (case x of Some n \<Rightarrow> PInt n
          | None \<Rightarrow> (case map_of kvs key of Some v \<Rightarrow> v | None \<Rightarrow> PNone))"
  by (simp add: resolve_option_PDict int_arg_def split: option.splits)

lemma resolve_float:
  "resolve_option (float_arg x) (PDict kvs) key False =
     Inr (case x of Some r \<Rightarrow> PFloat r
          | None \<Rightarrow> (case map_of kvs key of Some v \<Rightarrow> v | None \<Rightarrow> PNone))"
  by (simp add: resolve_option_PDict float_arg_def split: option.splits)

lemma resolve_settings_Inr:
  assumes "resolve_settings ip a (PDict kvs) = Inr s"
  obtains port_v dll_v where
    "resolve_option (str_arg (port a)) (PDict kvs) ''port'' True = Inr port_v"
    "resolve_option (str_arg (dll a)) (PDict kvs) ''dll'' True = Inr dll_v"
    "Path dll_v = Inr (s_dll_path s)"
    "s_port s = port_v"
    "s_baudrate s =
       py_or (case baudrate a of Some n \<Rightarrow> PInt n
              | None \<Rightarrow> (case map_of kvs ''baudrate'' of Some v \<Rightarrow> v | None \<Rightarrow> PNone))
         (PInt 921600)"
    "s_pulse_threshold s =
       py_or (case pulse_threshold a of Some r \<Rightarrow> PFloat r
              | None \<Rightarrow> (case map_of kvs ''pulse_threshold'' of Some v \<Rightarrow> v | None \<Rightarrow> PNone))
         (PFloat (5 / 10000))"
    "py_int ip
       (py_or (case warmup a of Some n \<Rightarrow> PInt n
               | None \<Rightarrow> (case map_of kvs ''warmup'' of Some v \<Rightarrow> v | None \<Rightarrow> PNone))
          (PInt 0)) = Inr (s_warmup s)"
  using assms unfolding resolve_settings_def resolve_int resolve_float
  by (auto split: sum.splits)

lemma resolve_settings_port_missing:
  assumes "port a = None" and "map_of kvs ''port'' = None"
  shows "resolve_settings ip a (PDict kvs) =
           Inl (Usage (''Option '' @ quoted ''port'' @
                  '' is required; supply it on the command line or config file''))"
  using assms by (simp add: resolve_settings_def resolve_required except_ValueError_def)

lemma resolve_settings_dll_missing:
  assumes "\<not> (port a = None \<and> map_of kvs ''port'' = None)"
    and "dll a = None" and "map_of kvs ''dll'' = None"
  shows "resolve_settings ip a (PDict kvs) =
           Inl (Usage (''Option '' @ quoted ''dll'' @
                  '' is required; supply it on the command line or config file''))"
proof -
  have "\<exists>port_v. resolve_option (str_arg (port a)) (PDict kvs) ''port'' True = Inr port_v"
  proof (cases "port a")
    case None
    with assms(1) obtain v where "map_of kvs ''port'' = Some v" by auto
    with None show ?thesis by (simp add: resolve_required)
  next
    case (Some p)
    then show ?thesis by (simp add: resolve_required)
  qed
  then obtain port_v where
    "resolve_option (str_arg (port a)) (PDict kvs) ''port'' True = Inr port_v" ..
  with assms(2,3) show ?thesis
    by (simp add: resolve_settings_def resolve_required except_ValueError_def)
qed

lemma main_not_started:
  assumes "load_config (config_path a) (config_doc env) = Inr config"
    and "resolve_settings (builtins env) a config = Inl x"
  shows "main a env = \<lparr>ended = x, logged = [], actions = [], sent = []\<rparr>"
  using assms by (simp add: main_def)

subsection \<open>Required options\<close>

text \<open>
  C4, as the specification states it, fails on two kinds of config file that supply no
  port. With \<^verbatim>\<open>"port": null\<close> in the object, the null is taken for the port: no
  error is raised, the serial port is opened and the library is loaded. With a
  document that is not an object (here \<^verbatim>\<open>null\<close>), the test of line 52 raises a
  TypeError that names no option and that the handler of line 111 does not catch.
\<close>

theorem port_not_supplied:
  "ended (main no_options
      (working_env (Parsed (PDict [(''port'', PNone), (''dll'', PStr ''vs.dll'')])) [])) = Running
   \<and> actions (main no_options
      (working_env (Parsed (PDict [(''port'', PNone), (''dll'', PStr ''vs.dll'')])) [])) =
       [SerialOpen PNone (PInt 921600), LoadLibrary ''vs.dll'']
   \<and> main no_options (working_env (Parsed PNone) []) =
       \<lparr>ended = Uncaught TypeError, logged = [], actions = [], sent = []\<rparr>"
  by (simp add: startup_defs relay_defs input_defs)

text \<open>
  C4, amended. Let the config file be absent or hold an object. When neither the
  command line has \<open>port\<close> nor the object has the key \<open>port\<close>, or the same holds of
  \<open>dll\<close>, the process ends in \<^verbatim>\<open>parser.error\<close> with the message that names the
  missing option (\<open>port\<close> when both are missing) and with exit status 2; no device
  action has been attempted and nothing has been logged or sent.
\<close>

theorem missing_required:
  assumes "load_config (config_path a) (config_doc env) = Inr (PDict kvs)"
    and "(port a = None \<and> map_of kvs ''port'' = None)
         \<or> (dll a = None \<and> map_of kvs ''dll'' = None)"
  shows "main a env =
           \<lparr>ended = Usage (''Option ''
                      @ quoted (if port a = None \<and> map_of kvs ''port'' = None
                                then ''port'' else ''dll'')
                      @ '' is required; supply it on the command line or config file''),
            logged = [], actions = [], sent = []\<rparr>
         \<and> exit_status (ended (main a env)) = Some 2"
proof (cases "port a = None \<and> map_of kvs ''port'' = None")
  case True
  then have "resolve_settings (builtins env) a (PDict kvs) =
               Inl (Usage (''Option '' @ quoted ''port'' @
                      '' is required; supply it on the command line or config file''))"
    by (simp add: resolve_settings_port_missing)
  from main_not_started [OF assms(1) this]
  have "main a env =
          \<lparr>ended = Usage (''Option '' @ quoted ''port'' @
                     '' is required; supply it on the command line or config file''),
           logged = [], actions = [], sent = []\<rparr>" .
  moreover have "(if port a = None \<and> map_of kvs ''port'' = None then ''port'' else ''dll'')
                   = ''port''"
    using True by simp
  ultimately show ?thesis by simp
next
  case False
  with assms(2) have "dll a = None" and "map_of kvs ''dll'' = None" by auto
  from resolve_settings_dll_missing [OF False this]
  have "resolve_settings (builtins env) a (PDict kvs) =
          Inl (Usage (''Option '' @ quoted ''dll'' @
                 '' is required; supply it on the command line or config file''))" .
  from main_not_started [OF assms(1) this]
  have "main a env =
          \<lparr>ended = Usage (''Option '' @ quoted ''dll'' @
                     '' is required; supply it on the command line or config file''),
           logged = [], actions = [], sent = []\<rparr>" .
  moreover have "(if port a = None \<and> map_of kvs ''port'' = None then ''port'' else ''dll'')
                   = ''dll''"
    by (simp only: False if_False)
  ultimately show ?thesis by simp
qed

text \<open>
  The third scenario of the specification (no config file, no \<^verbatim>\<open>--port\<close>), and a
  config file that has the port only.
\<close>

theorem missing_required_witness:
  "main no_options (working_env Absent [edge 100]) =
     \<lparr>ended = Usage (''Option '' @ quoted ''port'' @
                '' is required; supply it on the command line or config file''),
      logged = [], actions = [], sent = []\<rparr>
   \<and> main no_options (working_env (Parsed (PDict [(''port'', PStr ''COM5'')])) [edge 100]) =
     \<lparr>ended = Usage (''Option '' @ quoted ''dll'' @
                '' is required; supply it on the command line or config file''),
      logged = [], actions = [], sent = []\<rparr>"
proof -
  have l1: "load_config (config_path no_options) (config_doc (working_env Absent [edge 100])) =
              Inr (PDict [])"
    by (simp add: load_config_def working_env_def)
  have m1: "(port no_options = None \<and> map_of [] ''port'' = (None :: pyval option))
            \<or> (dll no_options = None \<and> map_of [] ''dll'' = (None :: pyval option))"
    by (simp add: no_options_def)
  have l2: "load_config (config_path no_options)
              (config_doc (working_env (Parsed (PDict [(''port'', PStr ''COM5'')])) [edge 100])) =
              Inr (PDict [(''port'', PStr ''COM5'')])"
    by (simp add: load_config_def working_env_def)
  have m2: "(port no_options = None \<and> map_of [(''port'', PStr ''COM5'')] ''port'' = None)
            \<or> (dll no_options = None \<and> map_of [(''port'', PStr ''COM5'')] ''dll'' = None)"
    by (simp add: no_options_def)
  from missing_required [OF l1 m1] missing_required [OF l2 m2]
  show ?thesis by (simp add: no_options_def)
qed

subsection \<open>Falsy values in the config file\<close>

lemma py_or_falsy: "\<not> truthy v \<Longrightarrow> py_or v d = d"
  by (simp add: py_or_def)

lemma py_int_PInt: "py_int ip (PInt n) = Inr n"
  by (simp add: py_int_def)

text \<open>
  C5. When the command line gives no value and the config file binds \<open>baudrate\<close>,
  \<open>pulse_threshold\<close> or \<open>warmup\<close> to a falsy value (zero, an empty string, list or
  object, false or null), the merged setting is the built-in default: 921600, 0.0005
  and 0.
\<close>

theorem falsy_falls_through:
  assumes "resolve_settings ip a (PDict kvs) = Inr s"
  shows "(\<forall>v. baudrate a = None \<longrightarrow> map_of kvs ''baudrate'' = Some v \<longrightarrow> \<not> truthy v
            \<longrightarrow> s_baudrate s = PInt 921600)
       \<and> (\<forall>v. pulse_threshold a = None \<longrightarrow> map_of kvs ''pulse_threshold'' = Some v
            \<longrightarrow> \<not> truthy v \<longrightarrow> s_pulse_threshold s = PFloat (5 / 10000))
       \<and> (\<forall>v. warmup a = None \<longrightarrow> map_of kvs ''warmup'' = Some v \<longrightarrow> \<not> truthy v
            \<longrightarrow> s_warmup s = 0)"
proof -
  from assms obtain
    b: "s_baudrate s =
          py_or (case baudrate a of Some n \<Rightarrow> PInt n
                 | None \<Rightarrow> (case map_of kvs ''baudrate'' of Some v \<Rightarrow> v | None \<Rightarrow> PNone))
            (PInt 921600)"
    and p: "s_pulse_threshold s =
          py_or (case pulse_threshold a of Some r \<Rightarrow> PFloat r
                 | None \<Rightarrow> (case map_of kvs ''pulse_threshold'' of Some v \<Rightarrow> v
                             | None \<Rightarrow> PNone))
            (PFloat (5 / 10000))"
    and w: "py_int ip
          (py_or (case warmup a of Some n \<Rightarrow> PInt n
                  | None \<Rightarrow> (case map_of kvs ''warmup'' of Some v \<Rightarrow> v | None \<Rightarrow> PNone))
             (PInt 0)) = Inr (s_warmup s)"
    by (rule resolve_settings_Inr)
  have "s_baudrate s = PInt 921600"
    if "baudrate a = None" "map_of kvs ''baudrate'' = Some v" "\<not> truthy v" for v
    using b that by (simp add: py_or_falsy)
  moreover have "s_pulse_threshold s = PFloat (5 / 10000)"
    if "pulse_threshold a = None" "map_of kvs ''pulse_threshold'' = Some v" "\<not> truthy v" for v
    using p that by (simp add: py_or_falsy)
  moreover have "s_warmup s = 0"
    if "warmup a = None" "map_of kvs ''warmup'' = Some v" "\<not> truthy v" for v
    using w that by (simp add: py_or_falsy py_int_PInt)
  ultimately show ?thesis by blast
qed

text \<open>
  A config file with \<^verbatim>\<open>"baudrate": 0, "pulse_threshold": 0.0, "warmup": 0\<close> beside the
  port and the library: the three settings are the defaults.
\<close>

theorem falsy_falls_through_witness:
  "resolve_settings plain_interp no_options
     (PDict [(''port'', PStr ''COM5''), (''dll'', PStr ''vs.dll''), (''baudrate'', PInt 0),
             (''pulse_threshold'', PFloat 0), (''warmup'', PInt 0)]) =
   Inr \<lparr>s_port = PStr ''COM5'', s_dll_path = PPath ''vs.dll'', s_baudrate = PInt 921600,
        s_pulse_threshold = PFloat (5 / 10000), s_warmup = 0\<rparr>
   \<and> s_baudrate \<lparr>s_port = PStr ''COM5'', s_dll_path = PPath ''vs.dll'', s_baudrate = PInt 921600,
        s_pulse_threshold = PFloat (5 / 10000), s_warmup = 0\<rparr> = PInt 921600
   \<and> s_pulse_threshold \<lparr>s_port = PStr ''COM5'', s_dll_path = PPath ''vs.dll'',
        s_baudrate = PInt 921600, s_pulse_threshold = PFloat (5 / 10000), s_warmup = 0\<rparr> =
      PFloat (5 / 10000)
   \<and> s_warmup \<lparr>s_port = PStr ''COM5'', s_dll_path = PPath ''vs.dll'', s_baudrate = PInt 921600,
        s_pulse_threshold = PFloat (5 / 10000), s_warmup = 0\<rparr> = 0"
proof -
  let ?kvs = "[(''port'', PStr ''COM5''), (''dll'', PStr ''vs.dll''), (''baudrate'', PInt 0),
             (''pulse_threshold'', PFloat 0), (''warmup'', PInt 0)]"
  let ?s = "\<lparr>s_port = PStr ''COM5'', s_dll_path = PPath ''vs.dll'', s_baudrate = PInt 921600,
        s_pulse_threshold = PFloat (5 / 10000), s_warmup = 0\<rparr>"
  have r: "resolve_settings plain_interp no_options (PDict ?kvs) = Inr ?s"
    by (simp add: startup_defs input_defs)
  have "baudrate no_options = None" "map_of ?kvs ''baudrate'' = Some (PInt 0)"
    "\<not> truthy (PInt 0)"
    "pulse_threshold no_options = None" "map_of ?kvs ''pulse_threshold'' = Some (PFloat 0)"
    "\<not> truthy (PFloat 0)"
    "warmup no_options = None" "map_of ?kvs ''warmup'' = Some (PInt 0)"
    by (simp_all add: no_options_def)
  with falsy_falls_through [OF r] have
    "s_baudrate ?s = PInt 921600" "s_pulse_threshold ?s = PFloat (5 / 10000)" "s_warmup ?s = 0"
    by blast+
  with r show ?thesis by blast
qed

subsection \<open>Precedence\<close>




subsection \<open>A required key bound to null\<close>

lemma main_no_usage:
  assumes "load_config (config_path a) (config_doc env) = Inr config"
    and "resolve_settings (builtins env) a config = Inr s"
  shows "ended (main a env) \<noteq> Usage m"
  using assms
  by (simp add: main_def Let_def open_serial_def
        split: sum.splits option.splits exn.splits prod.splits stop.splits)

text \<open>
  C10. A config file that has \<^verbatim>\<open>"port": null\<close>: option resolution with
  \<open>required = True\<close> returns the null, the settings resolve with the port None, and
  whatever the machine does afterwards the process does not end in the usage error.
  With \<^verbatim>\<open>"dll": null\<close> resolution returns the null as well, and \<^verbatim>\<open>Path(None)\<close>
  ends the process with a TypeError that nobody handles.
\<close>

theorem null_required_value:
  "resolve_option PNone (PDict [(''port'', PNone), (''dll'', PStr ''vs.dll'')]) ''port'' True =
     Inr PNone
   \<and> resolve_settings ip no_options (PDict [(''port'', PNone), (''dll'', PStr ''vs.dll'')]) =
       Inr \<lparr>s_port = PNone, s_dll_path = PPath ''vs.dll'', s_baudrate = PInt 921600,
            s_pulse_threshold = PFloat (5 / 10000), s_warmup = 0\<rparr>
   \<and> ended (main no_options
        (env\<lparr>config_doc := Parsed (PDict [(''port'', PNone), (''dll'', PStr ''vs.dll'')])\<rparr>))
       \<noteq> Usage m
   \<and> resolve_option PNone (PDict [(''port'', PStr ''COM5''), (''dll'', PNone)]) ''dll'' True =
       Inr PNone
   \<and> main no_options
        (env\<lparr>config_doc := Parsed (PDict [(''port'', PStr ''COM5''), (''dll'', PNone)])\<rparr>) =
       \<lparr>ended = Uncaught TypeError, logged = [], actions = [], sent = []\<rparr>"
proof -
  let ?c = "PDict [(''port'', PNone), (''dll'', PStr ''vs.dll'')]"
  have r: "resolve_settings ip no_options ?c =
       Inr \<lparr>s_port = PNone, s_dll_path = PPath ''vs.dll'', s_baudrate = PInt 921600,
            s_pulse_threshold = PFloat (5 / 10000), s_warmup = 0\<rparr>" for ip
    by (simp add: startup_defs no_options_def)
  let ?env = "env\<lparr>config_doc := Parsed ?c\<rparr>"
  have l: "load_config (config_path no_options) (config_doc ?env) = Inr ?c"
    by (simp add: load_config_def)
  have u: "ended (main no_options ?env) \<noteq> Usage m"
    by (rule main_no_usage [OF l r])
  have d: "main no_options
        (env\<lparr>config_doc := Parsed (PDict [(''port'', PStr ''COM5''), (''dll'', PNone)])\<rparr>) =
       \<lparr>ended = Uncaught TypeError, logged = [], actions = [], sent = []\<rparr>"
    by (simp add: startup_defs no_options_def)
  have o1: "resolve_option PNone ?c ''port'' True = Inr PNone"
    by (simp add: resolve_option_PDict)
  have o2: "resolve_option PNone (PDict [(''port'', PStr ''COM5''), (''dll'', PNone)]) ''dll'' True
              = Inr PNone"
    by (simp add: resolve_option_PDict)
  from o1 r u o2 d show ?thesis by simp
qed

section \<open>Leaving the relay\<close>

subsection \<open>How an exception leaves the try block\<close>

lemma warm_up_raises:
  "warm_up n pre = Inl Blocked \<Longrightarrow> wait_result t = Inl e \<Longrightarrow>
     warm_up n (pre @ t # post) = Inl (Raised e)"
  by (induction n pre rule: warm_up.induct) (auto split: sum.splits)

lemma try_block_wait_raises:
  assumes run: "try_block w thr pre = (st, Blocked)" and raises: "wait_result t = Inl e"
  shows "try_block w thr (pre @ t # post) = (st, Raised e)"
proof (cases "warm_up (nat w) pre")
  case (Inl how)
  with run have blocked: "warm_up (nat w) pre = Inl Blocked"
    and st: "st = \<lparr>last_pulse = 0, written = []\<rparr>"
    by (simp_all add: try_block_def)
  from warm_up_raises [OF blocked raises] st show ?thesis
    by (simp add: try_block_def)
next
  case (Inr rest)
  with run have loop: "relay_loop thr \<lparr>last_pulse = 0, written = []\<rparr> rest = (st, Blocked)"
    by (simp add: try_block_def)
  have "try_block w thr (pre @ t # post) =
          relay_loop thr \<lparr>last_pulse = 0, written = []\<rparr> (rest @ t # post)"
    by (simp add: try_block_def warm_up_append [OF Inr])
  also have "\<dots> = relay_loop thr st (t # post)"
    by (rule relay_loop_append [OF loop])
  also have "\<dots> = (st, Raised e)"
    using raises by simp
  finally show ?thesis .
qed

lemma try_block_write_raises:
  assumes run: "try_block w thr pre = (st, Blocked)" and warm: "nat w \<le> length pre"
    and accept: "wait_result t = Inr 1" and thr: "as_real thr = Some r"
    and due: "\<not> clock t - last_pulse st < r" and raises: "write_result t = Some e"
  shows "try_block w thr (pre @ t # post) =
           (\<lparr>last_pulse = clock t, written = written st @ [0xAA]\<rparr>, Raised e)"
proof (cases "warm_up (nat w) pre")
  case (Inl how)
  with run have "warm_up (nat w) pre = Inl Blocked"
    by (simp add: try_block_def)
  from warm_up_Blocked [OF this] warm show ?thesis by simp
next
  case (Inr rest)
  with run have loop: "relay_loop thr \<lparr>last_pulse = 0, written = []\<rparr> rest = (st, Blocked)"
    by (simp add: try_block_def)
  have "try_block w thr (pre @ t # post) =
          relay_loop thr \<lparr>last_pulse = 0, written = []\<rparr> (rest @ t # post)"
    by (simp add: try_block_def warm_up_append [OF Inr])
  also have "\<dots> = relay_loop thr st (t # post)"
    by (rule relay_loop_append [OF loop])
  also have "\<dots> = (\<lparr>last_pulse = clock t, written = written st @ [0xAA]\<rparr>, Raised e)"
    using accept thr due raises by (simp add: py_float_lt_def PULSE_BYTE_def)
  finally show ?thesis .
qed

subsection \<open>What the program does when the try block is left\<close>

lemma main_relay_left:
  assumes "load_config (config_path a) (config_doc env) = Inr config"
    and "resolve_settings (builtins env) a config = Inr s"
    and "open_serial env (s_port s) (s_baudrate s) = Inr u"
    and "create_vsync_waiter env (s_dll_path s) = Inr u'"
    and "try_block (s_warmup s) (s_pulse_threshold s) (ticks env) = (st, Raised e)"
  shows "ended (main a env) = (if e = KeyboardInterrupt then Exit 0 else Uncaught e)"
    and "actions (main a env) =
           [SerialOpen (s_port s) (s_baudrate s),
            LoadLibrary (py_str (builtins env) (s_dll_path s)), SerialClose]"
    and "sent (main a env) = written st"
    and "logged (main a env) =
           (if e = KeyboardInterrupt then LOGGER_info (log_level a) ''Exiting on user request'' []
            else (\<lambda>lg. lg))
             (LOGGER_info (log_level a)
                ''Starting VSYNC relay (pulse_threshold=%s s, warmup=%s frames)''
                [s_pulse_threshold s, PInt (s_warmup s)]
                (LOGGER_info (log_level a) ''Loading VSYNC waiter DLL from %s'' [s_dll_path s]
                   (LOGGER_info (log_level a) ''Opening serial port %s @ %d baud''
                      [s_port s, s_baudrate s] [])))"
  using assms by (cases e; simp add: main_def Let_def)+

lemma main_relay_blocked:
  assumes "load_config (config_path a) (config_doc env) = Inr config"
    and "resolve_settings (builtins env) a config = Inr s"
    and "open_serial env (s_port s) (s_baudrate s) = Inr u"
    and "create_vsync_waiter env (s_dll_path s) = Inr u'"
    and "try_block (s_warmup s) (s_pulse_threshold s) (ticks env) = (st, Blocked)"
  shows "ended (main a env) = Running"
  using assms by (simp add: main_def Let_def)

lemma exit_record_logged:
  "(Info, ''Exiting on user request'', []) \<in>
     set (LOGGER_info lvl ''Exiting on user request'' []
            (LOGGER_info lvl ''Starting VSYNC relay (pulse_threshold=%s s, warmup=%s frames)'' as3
               (LOGGER_info lvl ''Loading VSYNC waiter DLL from %s'' as2
                  (LOGGER_info lvl ''Opening serial port %s @ %d baud'' as1 []))))
   \<longleftrightarrow> level_no lvl \<le> level_no Info"
  by (cases lvl) (simp_all add: LOGGER_info_def)

lemma main_interrupted:
  assumes "load_config (config_path a) (config_doc env) = Inr config"
    and "resolve_settings (builtins env) a config = Inr s"
    and "open_serial env (s_port s) (s_baudrate s) = Inr u"
    and "create_vsync_waiter env (s_dll_path s) = Inr u'"
    and "try_block (s_warmup s) (s_pulse_threshold s) (ticks env) = (st, Raised KeyboardInterrupt)"
  shows "ended (main a env) = Exit 0
       \<and> exit_status (ended (main a env)) = Some 0
       \<and> last (actions (main a env)) = SerialClose
       \<and> count_list (actions (main a env)) SerialClose = 1
       \<and> ((Info, ''Exiting on user request'', []) \<in> set (logged (main a env))
            \<longleftrightarrow> level_no (log_level a) \<le> level_no Info)"
proof -
  note left = main_relay_left [OF assms]
  have "ended (main a env) = Exit 0" "exit_status (ended (main a env)) = Some 0"
    by (simp_all add: left(1))
  moreover have "last (actions (main a env)) = SerialClose"
    and "count_list (actions (main a env)) SerialClose = 1"
    by (simp_all add: left(2))
  moreover have "(Info, ''Exiting on user request'', []) \<in> set (logged (main a env))
                  \<longleftrightarrow> level_no (log_level a) \<le> level_no Info"
    unfolding left(4) by (simp only: simp_thms if_True exit_record_logged)
  ultimately show ?thesis by simp
qed

subsection \<open>The user's interrupt\<close>

text \<open>
  C7, as the specification states it, fails where it says that a log line is
  produced: the record of line 142 passes through the level that \<^verbatim>\<open>--log-level\<close>
  sets. Under \<^verbatim>\<open>--log-level warning\<close> an interrupt ends the process with status 0
  and the port closed, and nothing is logged.
\<close>

theorem interrupt_not_logged:
  "main (no_options\<lparr>log_level := Warning\<rparr>)
     (working_env (Parsed com5_config) [edge 100, interrupt]) =
   \<lparr>ended = Exit 0, logged = [],
    actions = [SerialOpen (PStr ''COM5'') (PInt 921600), LoadLibrary ''vs.dll'', SerialClose],
    sent = [0xAA]\<rparr>"
  by (simp add: startup_defs relay_defs input_defs)

text \<open>
  C7, amended. Let the devices be open, let the calls \<open>pre\<close> of the wait function keep
  the relay running, and let the user's interrupt arrive in the next pass of the loop:
  the call of the wait function raises it, or the call returns ACCEPT, the edge is due
  and the serial write raises it. Then the process exits with status 0, the serial
  connection is closed, once and as the last device action, and the informational
  record "Exiting on user request" is logged exactly when the configured log level is
  debug or info. (The try statement of line 128 encloses the warm-up calls as well, and
  so does the theorem: \<open>pre\<close> may end before the warm-up does.)

  On every exit path: with the devices open, either the process is still in the relay
  or closing the serial connection was its last device action.
\<close>

theorem graceful_shutdown:
  assumes "load_config (config_path a) (config_doc env) = Inr config"
    and "resolve_settings (builtins env) a config = Inr s"
    and "open_serial env (s_port s) (s_baudrate s) = Inr u"
    and "create_vsync_waiter env (s_dll_path s) = Inr u'"
  shows "(ticks env = pre @ t # post \<longrightarrow>
          try_block (s_warmup s) (s_pulse_threshold s) pre = (st, Blocked) \<longrightarrow>
          (wait_result t = Inl KeyboardInterrupt
           \<or> (nat (s_warmup s) \<le> length pre \<and> wait_result t = Inr 1
              \<and> as_real (s_pulse_threshold s) = Some r \<and> \<not> clock t - last_pulse st < r
              \<and> write_result t = Some KeyboardInterrupt)) \<longrightarrow>
            ended (main a env) = Exit 0
          \<and> exit_status (ended (main a env)) = Some 0
          \<and> last (actions (main a env)) = SerialClose
          \<and> count_list (actions (main a env)) SerialClose = 1
          \<and> ((Info, ''Exiting on user request'', []) \<in> set (logged (main a env))
               \<longleftrightarrow> level_no (log_level a) \<le> level_no Info))
       \<and> (ended (main a env) = Running \<or> last (actions (main a env)) = SerialClose)"
proof (rule conjI; (intro impI)?)
  assume tk: "ticks env = pre @ t # post"
    and run: "try_block (s_warmup s) (s_pulse_threshold s) pre = (st, Blocked)"
    and intr: "wait_result t = Inl KeyboardInterrupt
           \<or> (nat (s_warmup s) \<le> length pre \<and> wait_result t = Inr 1
              \<and> as_real (s_pulse_threshold s) = Some r \<and> \<not> clock t - last_pulse st < r
              \<and> write_result t = Some KeyboardInterrupt)"
  from intr have "\<exists>st'. try_block (s_warmup s) (s_pulse_threshold s) (ticks env) =
                         (st', Raised KeyboardInterrupt)"
  proof
    assume "wait_result t = Inl KeyboardInterrupt"
    from try_block_wait_raises [OF run this, of post] tk show ?thesis by simp
  next
    assume w: "nat (s_warmup s) \<le> length pre \<and> wait_result t = Inr 1
              \<and> as_real (s_pulse_threshold s) = Some r \<and> \<not> clock t - last_pulse st < r
              \<and> write_result t = Some KeyboardInterrupt"
    then have warm: "nat (s_warmup s) \<le> length pre" and accept: "wait_result t = Inr 1"
      and thr: "as_real (s_pulse_threshold s) = Some r"
      and due: "\<not> clock t - last_pulse st < r"
      and raises: "write_result t = Some KeyboardInterrupt"
      by blast+
    from try_block_write_raises [OF run warm accept thr due raises, of post] tk
    show ?thesis by simp
  qed
  then obtain st' where
    "try_block (s_warmup s) (s_pulse_threshold s) (ticks env) = (st', Raised KeyboardInterrupt)"
    ..
  then show "ended (main a env) = Exit 0
          \<and> exit_status (ended (main a env)) = Some 0
          \<and> last (actions (main a env)) = SerialClose
          \<and> count_list (actions (main a env)) SerialClose = 1
          \<and> ((Info, ''Exiting on user request'', []) \<in> set (logged (main a env))
               \<longleftrightarrow> level_no (log_level a) \<le> level_no Info)"
    by (rule main_interrupted [OF assms])
next
  obtain st how where
    t: "try_block (s_warmup s) (s_pulse_threshold s) (ticks env) = (st, how)"
    by (cases "try_block (s_warmup s) (s_pulse_threshold s) (ticks env)")
  show "ended (main a env) = Running \<or> last (actions (main a env)) = SerialClose"
  proof (cases how)
    case Blocked
    with t main_relay_blocked [OF assms] show ?thesis by simp
  next
    case (Raised e)
    with t main_relay_left(2) [OF assms] show ?thesis by simp
  qed
qed

text \<open>
  Three runs at the default log level. Ctrl-C in the wait after one relayed edge;
  Ctrl-C in the second of three warm-up calls; Ctrl-C in the write of the second edge.
  Each ends with status 0, the port closed and the record logged.
\<close>

theorem graceful_shutdown_witness:
  "main no_options (working_env (Parsed com5_config) [edge 100, interrupt]) =
     \<lparr>ended = Exit 0,
      logged = [(Info, ''Opening serial port %s @ %d baud'', [PStr ''COM5'', PInt 921600]),
                (Info, ''Loading VSYNC waiter DLL from %s'', [PPath ''vs.dll'']),
                (Info, ''Starting VSYNC relay (pulse_threshold=%s s, warmup=%s frames)'',
                 [PFloat (5 / 10000), PInt 0]),
                (Info, ''Exiting on user request'', [])],
      actions = [SerialOpen (PStr ''COM5'') (PInt 921600), LoadLibrary ''vs.dll'', SerialClose],
      sent = [0xAA]\<rparr>
   \<and> ended (main (no_options\<lparr>warmup := Some 3\<rparr>)
        (working_env (Parsed com5_config) [edge 100, interrupt, edge 101])) = Exit 0
   \<and> last (actions (main (no_options\<lparr>warmup := Some 3\<rparr>)
        (working_env (Parsed com5_config) [edge 100, interrupt, edge 101]))) = SerialClose
   \<and> ended (main no_options (working_env (Parsed com5_config)
        [edge 100, \<lparr>wait_result = Inr 1, clock = 101,
                    write_result = Some KeyboardInterrupt\<rparr>])) = Exit 0
   \<and> last (actions (main no_options (working_env (Parsed com5_config)
        [edge 100, \<lparr>wait_result = Inr 1, clock = 101,
                    write_result = Some KeyboardInterrupt\<rparr>]))) = SerialClose"
proof -
  let ?s = "\<lparr>s_port = PStr ''COM5'', s_dll_path = PPath ''vs.dll'', s_baudrate = PInt 921600,
        s_pulse_threshold = PFloat (5 / 10000), s_warmup = 0\<rparr>"
  let ?s3 = "\<lparr>s_port = PStr ''COM5'', s_dll_path = PPath ''vs.dll'', s_baudrate = PInt 921600,
        s_pulse_threshold = PFloat (5 / 10000), s_warmup = 3\<rparr>"
  let ?w = "\<lparr>wait_result = Inr 1, clock = 101, write_result = Some KeyboardInterrupt\<rparr>"
  let ?env1 = "working_env (Parsed com5_config) [edge 100, interrupt]"
  let ?env2 = "working_env (Parsed com5_config) [edge 100, interrupt, edge 101]"
  let ?env3 = "working_env (Parsed com5_config) [edge 100, ?w]"
  have l: "load_config (config_path a) (config_doc (working_env (Parsed com5_config) ts)) =
             Inr com5_config" for a ts
    by (simp add: load_config_def working_env_def)
  have r: "resolve_settings (builtins (working_env (Parsed com5_config) ts)) no_options
             com5_config = Inr ?s" for ts
    by (simp add: startup_defs input_defs)
  have r3: "resolve_settings (builtins (working_env (Parsed com5_config) ts))
              (no_options\<lparr>warmup := Some 3\<rparr>) com5_config = Inr ?s3" for ts
    by (simp add: startup_defs input_defs)
  have o: "open_serial (working_env (Parsed com5_config) ts) p b = Inr ()" for ts p b
    by (simp add: open_serial_def working_env_def)
  have c: "create_vsync_waiter (working_env (Parsed com5_config) ts) d = Inr ()" for ts d
    by (simp add: create_vsync_waiter_def working_env_def)
  have run: "try_block (s_warmup ?s) (s_pulse_threshold ?s) [edge 100] =
               (\<lparr>last_pulse = 100, written = [0xAA]\<rparr>, Blocked)"
    by (simp add: relay_defs edge_def)
  have run3: "try_block (s_warmup ?s3) (s_pulse_threshold ?s3) [edge 100] =
               (\<lparr>last_pulse = 0, written = []\<rparr>, Blocked)"
    by (simp add: relay_defs edge_def eval_nat_numeral)
  have g1: "ended (main no_options ?env1) = Exit 0
          \<and> exit_status (ended (main no_options ?env1)) = Some 0
          \<and> last (actions (main no_options ?env1)) = SerialClose
          \<and> count_list (actions (main no_options ?env1)) SerialClose = 1
          \<and> ((Info, ''Exiting on user request'', []) \<in> set (logged (main no_options ?env1))
               \<longleftrightarrow> level_no (log_level no_options) \<le> level_no Info)"
    using graceful_shutdown [OF l r o c, of "[edge 100, interrupt]" "[edge 100]" interrupt "[]"
            "\<lparr>last_pulse = 100, written = [0xAA]\<rparr>" 0] run
    by (simp add: working_env_def interrupt_def)
  have g2: "ended (main (no_options\<lparr>warmup := Some 3\<rparr>) ?env2) = Exit 0
          \<and> last (actions (main (no_options\<lparr>warmup := Some 3\<rparr>) ?env2)) = SerialClose"
    using graceful_shutdown [OF l r3 o c, of "[edge 100, interrupt, edge 101]" "[edge 100]"
            interrupt "[edge 101]" "\<lparr>last_pulse = 0, written = []\<rparr>" 0] run3
    by (simp add: working_env_def interrupt_def)
  have g3: "ended (main no_options ?env3) = Exit 0
          \<and> last (actions (main no_options ?env3)) = SerialClose"
    using graceful_shutdown [OF l r o c, of "[edge 100, ?w]" "[edge 100]" ?w "[]"
            "\<lparr>last_pulse = 100, written = [0xAA]\<rparr>" "5 / 10000"] run
    by (simp add: working_env_def as_real_def)
  have full: "main no_options ?env1 =
     \<lparr>ended = Exit 0,
      logged = [(Info, ''Opening serial port %s @ %d baud'', [PStr ''COM5'', PInt 921600]),
                (Info, ''Loading VSYNC waiter DLL from %s'', [PPath ''vs.dll'']),
                (Info, ''Starting VSYNC relay (pulse_threshold=%s s, warmup=%s frames)'',
                 [PFloat (5 / 10000), PInt 0]),
                (Info, ''Exiting on user request'', [])],
      actions = [SerialOpen (PStr ''COM5'') (PInt 921600), LoadLibrary ''vs.dll'', SerialClose],
      sent = [0xAA]\<rparr>"
    by (simp add: startup_defs relay_defs input_defs)
  from full g2 g3 g1 show ?thesis by simp
qed

section \<open>Failures of the devices at startup\<close>

text \<open>
  C9. The specification asks for a message that names the failing resource. A port
  that cannot be opened gets one: line 98 builds it around the port name and the cause.
  A library that cannot be loaded, or that lacks \<^verbatim>\<open>wait_for_vsync\<close>, gets none:
  lines 87 to 91 handle nothing, the loader's exception leaves the process as it is,
  its text does not have the library path, and the serial port opened before it is
  not closed. (At the log levels debug and info the record of line 123, logged before
  the load, shows the path; under \<^verbatim>\<open>--log-level warning\<close>, as below, nothing does.)
\<close>

theorem library_failure_unwrapped:
  "main (no_options\<lparr>log_level := Warning\<rparr>)
     ((working_env (Parsed com5_config) [])
        \<lparr>wait_for_vsync :=
           (\<lambda>p. Some (AttributeError (''function '' @ quoted ''wait_for_vsync'' @ '' not found'')))\<rparr>) =
   \<lparr>ended = Uncaught (AttributeError (''function '' @ quoted ''wait_for_vsync'' @ '' not found'')),
    logged = [],
    actions = [SerialOpen (PStr ''COM5'') (PInt 921600), LoadLibrary ''vs.dll''],
    sent = []\<rparr>
   \<and> ended (main no_options
        ((working_env (Parsed com5_config) [])
           \<lparr>CDLL := (\<lambda>p. Some (OSError ''[WinError 126] The specified module could not be found''))\<rparr>)) =
     Uncaught (OSError ''[WinError 126] The specified module could not be found'')
   \<and> main (no_options\<lparr>log_level := Warning\<rparr>)
       ((working_env (Parsed com5_config) [])
          \<lparr>serial_Serial := (\<lambda>p b. Some (SerialException ''could not open port''))\<rparr>) =
     \<lparr>ended = Fatal (''Failed to open serial port '' @ quoted ''COM5'' @ '': could not open port''),
      logged = [], actions = [SerialOpen (PStr ''COM5'') (PInt 921600)], sent = []\<rparr>"
  by (simp add: startup_defs input_defs)

end
